theory Spec2Isabelle
  imports Main "HOL-Library.Sublist"
begin

section \<open>The tag inference job handler (runOpenAI)\<close>

text \<open>
  A shallow embedding of the queue consumer that asks a chat-completion API for
  hashtags of a bookmarked link and stores them as tags of the bookmark. The handler
  is sequential glue around three collaborators: the process environment, the ORM
  (prisma) and the OpenAI client. Every \<^verbatim>\<open>await\<close> is a call that returns a
  value or throws, so a function of the source becomes a function from the world
  before the call to a result and the world after it; a thrown error is the left
  summand of the result. The handler never rolls anything back, hence the world after
  a throw is returned as well.
\<close>

subsection \<open>Values\<close>

text \<open>
  What \<^verbatim>\<open>JSON.parse\<close> returns. An object lists its own properties, each key
  once. The handler never looks at a number, so its value is kept as an integer.
\<close>

datatype json =
    JNull
  | JBool bool
  | JNumber int
  | JString string
  | JArray "json list"
  | JObject "(string \<times> json) list"

text \<open>
  What the handler can throw: \<^verbatim>\<open>new Error(message)\<close> of the source itself, the
  TypeError of reading \<^verbatim>\<open>.message\<close> of the undefined \<^verbatim>\<open>choices[0]\<close>, a
  rejection of the chat-completion request, and a rejection of an insert by the
  storage layer.
\<close>

datatype error =
    Error string
  | TypeError
  | OpenAIError string
  | UniqueConstraintFailed

record link =
  link_id :: string
  url :: string
  description :: "string option"

record bookmark =
  bm_id :: string
  bm_userId :: string
  bm_link :: "link option"

record tag =
  tag_id :: string
  tag_name :: string
  tag_userId :: string

record tagOnBookmark =
  tagId :: string
  bookmarkId :: string
  attachedBy :: string

record job =
  job_id :: "string option"
  job_data :: json

text \<open>Every request the handler sends to the storage layer or to the AI API.\<close>

datatype event =
    BookmarkFindUnique string
  | ChatCompletionsCreate string
  | BookmarkTagsFindMany string "string list"
  | BookmarkTagsCreate string string
  | TagsOnBookmarksCreate string string string

text \<open>
  The world the handler runs in: the two environment variables, the three tables, the
  number of identifiers the storage layer has generated, and the requests sent so far.
\<close>

record world =
  OPENAI_API_KEY :: "string option"
  OPENAI_ENABLED :: "string option"
  bookmarks :: "bookmark list"
  bookmarkTags :: "tag list"
  tagsOnBookmarks :: "tagOnBookmark list"
  idCounter :: nat
  trace :: "event list"

text \<open>
  The libraries and services whose code is not part of the handler, taken as
  parameters: \<^verbatim>\<open>JSON.parse\<close> (the left summand is the text of the SyntaxError),
  the text of a ZodError for a rejected value, the answer of the chat-completion
  endpoint to a prompt (the left summand is a rejected request, the right one the
  \<^verbatim>\<open>message.content\<close> of each choice), and the identifier the storage layer gives
  to the n-th row it creates.
\<close>

record externals =
  JSON_parse :: "string \<Rightarrow> string + json"
  zodErrorText :: "json \<Rightarrow> string"
  chat_completions_create :: "string \<Rightarrow> string + string option list"
  cuid :: "nat \<Rightarrow> string"

subsection \<open>JavaScript and zod helpers\<close>

text \<open>
  \<^verbatim>\<open>!s\<close> for a value that is a string, null or undefined: only a non-empty
  string is truthy.
\<close>

definition truthy :: "string option \<Rightarrow> bool" where
  "truthy s = (case s of None \<Rightarrow> False | Some v \<Rightarrow> v \<noteq> [])"

definition startsWith :: "string \<Rightarrow> string \<Rightarrow> bool" where
  "startsWith t p = (take (length p) t = p)"

definition slice :: "string \<Rightarrow> nat \<Rightarrow> string" where
  "slice t n = drop n t"

fun z_string :: "json \<Rightarrow> string option" where
  "z_string (JString s) = Some s"
| "z_string _ = None"

fun z_array_string :: "json \<Rightarrow> string list option" where
  "z_array_string (JArray xs) = those (map z_string xs)"
| "z_array_string _ = None"

text \<open>
  \<^verbatim>\<open>openAIResponseSchema.parse(v).tags\<close>: the value must be an object whose
  \<^verbatim>\<open>tags\<close> property is an array of strings; other properties are ignored.
  None stands for the ZodError.
\<close>

fun openAIResponseSchema :: "json \<Rightarrow> string list option" where
  "openAIResponseSchema (JObject kvs) =
     (case map_of kvs ''tags'' of None \<Rightarrow> None | Some v \<Rightarrow> z_array_string v)"
| "openAIResponseSchema _ = None"

text \<open>
  Modelled from the spec: zOpenAIRequestSchema is imported from the shared queues
  package, which is not among the sources. The spec describes the job input as
  "a payload validated against a schema exposing at least a bookmark identifier
  field"; the handler reads that field as \<^verbatim>\<open>bookmarkId\<close> and uses it as a string.
\<close>

fun zOpenAIRequestSchema :: "json \<Rightarrow> string option" where
  "zOpenAIRequestSchema (JObject kvs) =
     (case map_of kvs ''bookmarkId'' of None \<Rightarrow> None | Some v \<Rightarrow> z_string v)"
| "zOpenAIRequestSchema _ = None"

subsection \<open>The handler's functions\<close>

definition buildPrompt :: "string \<Rightarrow> string \<Rightarrow> string" where
  "buildPrompt u d =
     [CHR 0x0A] @
     ''You are a bot who given an article, extracts relevant '' @ [CHR 0x22] @ ''hashtags'' @
     [CHR 0x22] @ '' out of them.'' @ [CHR 0x0A] @
     ''You must respond in JSON with the key '' @ [CHR 0x22] @ ''tags'' @ [CHR 0x22] @
     '' and the value is list of tags.'' @ [CHR 0x0A] @
     ''----'' @ [CHR 0x0A] @
     ''URL: '' @ u @ [CHR 0x0A] @
     ''Description: '' @ d @ [CHR 0x0A] @
     ''  ''"

text \<open>The prefix \<^verbatim>\<open>[openai][${jobId}] \<close> of every message the handler writes.\<close>

definition openai_prefix :: "string \<Rightarrow> string" where
  "openai_prefix jobId = ''[openai]['' @ jobId @ ''] ''"

definition fetchBookmark :: "string \<Rightarrow> world \<Rightarrow> bookmark option \<times> world" where
  "fetchBookmark linkId w =
     (find (\<lambda>b. bm_id b = linkId) (bookmarks w),
      w\<lparr>trace := trace w @ [BookmarkFindUnique linkId]\<rparr>)"

text \<open>The callback of \<^verbatim>\<open>tags.map\<close> in inferTags.\<close>

definition stripHashtag :: "string \<Rightarrow> string" where
  "stripHashtag t = (if startsWith t ''#'' then slice t 1 else t)"

definition inferTags ::
  "externals \<Rightarrow> string \<Rightarrow> link \<Rightarrow> world \<Rightarrow> (error + string list) \<times> world" where
  "inferTags ext jobId l w =
     (case description l of
        None \<Rightarrow>
          (Inl (Error (openai_prefix jobId @ ''No description found for link '' @ [CHR 0x22] @
                       link_id l @ [CHR 0x22] @ ''. Skipping ...'')), w)
      | Some linkDescription \<Rightarrow>
          if linkDescription = [] then
            (Inl (Error (openai_prefix jobId @ ''No description found for link '' @ [CHR 0x22] @
                         link_id l @ [CHR 0x22] @ ''. Skipping ...'')), w)
          else
            (let prompt = buildPrompt (url l) linkDescription;
                 w1 = w\<lparr>trace := trace w @ [ChatCompletionsCreate prompt]\<rparr>
             in case chat_completions_create ext prompt of
                 Inl m \<Rightarrow> (Inl (OpenAIError m), w1)
               | Inr choices \<Rightarrow>
                   (case choices of
                      [] \<Rightarrow> (Inl TypeError, w1)
                    | content # others \<Rightarrow>
                        (case content of
                           None \<Rightarrow>
                             (Inl (Error (openai_prefix jobId @
                                          ''Got no message content from OpenAI'')), w1)
                         | Some response \<Rightarrow>
                             if response = [] then
                               (Inl (Error (openai_prefix jobId @
                                            ''Got no message content from OpenAI'')), w1)
                             else
                               (case JSON_parse ext response of
                                  Inl e \<Rightarrow>
                                    (Inl (Error (openai_prefix jobId @
                                                 ''Failed to parse JSON response from OpenAI: '' @ e)),
                                     w1)
                                | Inr v \<Rightarrow>
                                    (case openAIResponseSchema v of
                                       None \<Rightarrow>
                                         (Inl (Error (openai_prefix jobId @
                                                      ''Failed to parse JSON response from OpenAI: '' @
                                                      zodErrorText ext v)), w1)
                                     | Some tags \<Rightarrow> (Inr (map stripHashtag tags), w1)))))))"

definition bookmarkTags_findMany ::
  "string \<Rightarrow> string list \<Rightarrow> world \<Rightarrow> tag list \<times> world" where
  "bookmarkTags_findMany userId names w =
     (filter (\<lambda>t. tag_userId t = userId \<and> tag_name t \<in> set names) (bookmarkTags w),
      w\<lparr>trace := trace w @ [BookmarkTagsFindMany userId names]\<rparr>)"

text \<open>
  Modelled from the spec: the table of tags is declared in the database package,
  which is not among the sources. The spec's data model says of a tag: "named string,
  scoped per user; uniqueness enforced by (userId, name)". So an insert is rejected
  when the user already has a tag of that name, and otherwise appends a row with a
  generated identifier.
\<close>

definition bookmarkTags_create ::
  "externals \<Rightarrow> string \<Rightarrow> string \<Rightarrow> world \<Rightarrow> (error + tag) \<times> world" where
  "bookmarkTags_create ext name userId w =
     (let w1 = w\<lparr>trace := trace w @ [BookmarkTagsCreate name userId]\<rparr>
      in if list_ex (\<lambda>t. tag_userId t = userId \<and> tag_name t = name) (bookmarkTags w)
         then (Inl UniqueConstraintFailed, w1)
         else
           let t = \<lparr>tag_id = cuid ext (idCounter w), tag_name = name, tag_userId = userId\<rparr>
           in (Inr t, w1\<lparr>bookmarkTags := bookmarkTags w @ [t], idCounter := Suc (idCounter w)\<rparr>))"

text \<open>
  Modelled from the spec: the association table is declared in the database package
  as well. The spec calls it a "many-to-many link between Bookmark and Tag, recording
  which actor attached it" and states no constraint on it, so an insert appends the row.
\<close>

definition tagsOnBookmarks_create ::
  "tagOnBookmark \<Rightarrow> world \<Rightarrow> (error + tagOnBookmark) \<times> world" where
  "tagsOnBookmarks_create r w =
     (Inr r,
      w\<lparr>tagsOnBookmarks := tagsOnBookmarks w @ [r],
        trace := trace w @ [TagsOnBookmarksCreate (tagId r) (bookmarkId r) (attachedBy r)]\<rparr>)"

text \<open>
  \<^verbatim>\<open>xs.map(f)\<close> where f sends a request: every request is sent, in the order of the
  list, whatever the outcome of the others; the outcomes are the promises.
\<close>

fun map_requests ::
  "('a \<Rightarrow> world \<Rightarrow> (error + 'b) \<times> world) \<Rightarrow> 'a list \<Rightarrow> world \<Rightarrow> (error + 'b) list \<times> world" where
  "map_requests f [] w = ([], w)"
| "map_requests f (x # xs) w =
     (case f x w of (r, w1) \<Rightarrow>
        (case map_requests f xs w1 of (rs, w2) \<Rightarrow> (r # rs, w2)))"

text \<open>
  \<^verbatim>\<open>await Promise.all(promises)\<close>: the values in the order of the list, or the
  first rejection.
\<close>

fun Promise_all :: "(error + 'b) list \<Rightarrow> error + 'b list" where
  "Promise_all [] = Inr []"
| "Promise_all (Inl e # rs) = Inl e"
| "Promise_all (Inr v # rs) =
     (case Promise_all rs of Inl e \<Rightarrow> Inl e | Inr vs \<Rightarrow> Inr (v # vs))"

definition createTags ::
  "externals \<Rightarrow> string list \<Rightarrow> string \<Rightarrow> world \<Rightarrow> (error + string list) \<times> world" where
  "createTags ext tags userId w =
     (case bookmarkTags_findMany userId tags w of (existingTags, w1) \<Rightarrow>
        let existingTagSet = set (map tag_name existingTags);
            newTags = filter (\<lambda>t. t \<notin> existingTagSet) tags
        in case map_requests (\<lambda>t. bookmarkTags_create ext t userId) newTags w1 of
             (promises, w2) \<Rightarrow>
               (case Promise_all promises of
                  Inl e \<Rightarrow> (Inl e, w2)
                | Inr newTagObjects \<Rightarrow>
                    (Inr (map tag_id existingTags @ map tag_id newTagObjects), w2)))"

definition connectTags :: "string \<Rightarrow> string list \<Rightarrow> world \<Rightarrow> (error + unit) \<times> world" where
  "connectTags bid tagIds w =
     (case map_requests
             (\<lambda>i. tagsOnBookmarks_create \<lparr>tagId = i, bookmarkId = bid, attachedBy = ''ai''\<rparr>)
             tagIds w of
        (promises, w1) \<Rightarrow>
          (case Promise_all promises of Inl e \<Rightarrow> (Inl e, w1) | Inr _ \<Rightarrow> (Inr (), w1)))"

text \<open>\<^verbatim>\<open>job.id || "unknown"\<close>\<close>

definition jobId_of :: "job \<Rightarrow> string" where
  "jobId_of j = (case job_id j of None \<Rightarrow> ''unknown'' | Some i \<Rightarrow> if i = [] then ''unknown'' else i)"

text \<open>
  The handler. \<^verbatim>\<open>new OpenAI(...)\<close> gives an object, which is truthy, so the branch
  under \<^verbatim>\<open>if (!openai)\<close> is never taken; logging is not part of the model.
\<close>

definition runOpenAI :: "externals \<Rightarrow> job \<Rightarrow> world \<Rightarrow> (error + unit) \<times> world" where
  "runOpenAI ext j w =
     (let jobId = jobId_of j
      in if \<not> truthy (OPENAI_API_KEY w) \<or> \<not> truthy (OPENAI_ENABLED w) then (Inr (), w)
         else
           case zOpenAIRequestSchema (job_data j) of
             None \<Rightarrow>
               (Inl (Error (openai_prefix jobId @ ''Got malformed job request: '' @
                            zodErrorText ext (job_data j))), w)
           | Some bid \<Rightarrow>
               (case fetchBookmark bid w of
                  (None, w1) \<Rightarrow>
                    (Inl (Error (openai_prefix jobId @ ''bookmark with id '' @ bid @
                                 '' was not found'')), w1)
                | (Some b, w1) \<Rightarrow>
                    (case bm_link b of
                       None \<Rightarrow>
                         (Inl (Error (openai_prefix jobId @ ''bookmark with id '' @ bid @
                                      '' doesn'' @ [CHR 0x27] @ ''t have a link'')), w1)
                     | Some l \<Rightarrow>
                         (case inferTags ext jobId l w1 of
                            (Inl e, w2) \<Rightarrow> (Inl e, w2)
                          | (Inr tags, w2) \<Rightarrow>
                              (case createTags ext tags (bm_userId b) w2 of
                                 (Inl e, w3) \<Rightarrow> (Inl e, w3)
                               | (Inr tagIds, w3) \<Rightarrow> connectTags bid tagIds w3)))))"

subsection \<open>What a run leaves behind\<close>

text \<open>The prompts of the chat-completion requests sent so far.\<close>

fun chat_requests :: "event list \<Rightarrow> string list" where
  "chat_requests [] = []"
| "chat_requests (ChatCompletionsCreate p # evs) = p # chat_requests evs"
| "chat_requests (ev # evs) = chat_requests evs"

text \<open>The names for which the creation of a tag of the user was requested.\<close>

fun create_requests :: "string \<Rightarrow> event list \<Rightarrow> string list" where
  "create_requests u [] = []"
| "create_requests u (BookmarkTagsCreate n v # evs) =
     (if v = u then n # create_requests u evs else create_requests u evs)"
| "create_requests u (ev # evs) = create_requests u evs"

text \<open>The user owns a tag of that name.\<close>

definition owns :: "world \<Rightarrow> string \<Rightarrow> string \<Rightarrow> bool" where
  "owns w u n = list_ex (\<lambda>t. tag_userId t = u \<and> tag_name t = n) (bookmarkTags w)"

text \<open>The identifiers of the user's tags of that name.\<close>

definition tag_ids_named :: "world \<Rightarrow> string \<Rightarrow> string \<Rightarrow> string list" where
  "tag_ids_named w u n =
     map tag_id (filter (\<lambda>t. tag_userId t = u \<and> tag_name t = n) (bookmarkTags w))"

text \<open>The association rows of the second world that the first does not have yet.\<close>

definition new_associations :: "world \<Rightarrow> world \<Rightarrow> tagOnBookmark list" where
  "new_associations w w' = drop (length (tagsOnBookmarks w)) (tagsOnBookmarks w')"

text \<open>Rows are only ever added: no bookmark changes, no tag or association row is lost.\<close>

definition rows_kept :: "world \<Rightarrow> world \<Rightarrow> bool" where
  "rows_kept w w' =
     (bookmarks w' = bookmarks w \<and>
      prefix (bookmarkTags w) (bookmarkTags w') \<and>
      prefix (tagsOnBookmarks w) (tagsOnBookmarks w'))"

text \<open>The user has a tag of that name whose identifier is attached to the bookmark by "ai".\<close>

definition tagged_by_ai :: "world \<Rightarrow> string \<Rightarrow> string \<Rightarrow> string \<Rightarrow> bool" where
  "tagged_by_ai w u bid n =
     list_ex (\<lambda>t. tag_userId t = u \<and> tag_name t = n \<and>
                  list_ex (\<lambda>a. tagId a = tag_id t \<and> bookmarkId a = bid \<and> attachedBy a = ''ai'')
                    (tagsOnBookmarks w))
       (bookmarkTags w)"

subsection \<open>Concrete jobs and worlds\<close>

definition quoted :: "string \<Rightarrow> string" where
  "quoted s = CHR 0x22 # s @ [CHR 0x22]"

fun commas :: "string list \<Rightarrow> string" where
  "commas [] = []"
| "commas [x] = x"
| "commas (x # y # zs) = x @ '','' @ commas (y # zs)"

text \<open>The JSON text of an object with the one key "tags" and a list of plain strings.\<close>

definition tags_text :: "string list \<Rightarrow> string" where
  "tags_text ts = ''{'' @ quoted ''tags'' @ '':['' @ commas (map quoted ts) @ '']}''"

definition tags_value :: "string list \<Rightarrow> json" where
  "tags_value ts = JObject [(''tags'', JArray (map JString ts))]"

text \<open>
  A parser that agrees with \<^verbatim>\<open>JSON.parse\<close> on the texts of the examples: four
  objects with a list of tags, and a text that is not JSON.
\<close>

definition example_parse :: "string \<Rightarrow> string + json" where
  "example_parse s =
     (case find (\<lambda>ts. s = tags_text ts)
             [[''foo'', ''baz''], [''baz'', ''baz''], [''#''], [''#foo'', ''bar'']] of
        Some ts \<Rightarrow> Inr (tags_value ts)
      | None \<Rightarrow> Inl ''SyntaxError: Unexpected token'')"

text \<open>An AI that answers every prompt with one choice of the given content.\<close>

definition example_ext :: "string \<Rightarrow> externals" where
  "example_ext content =
     \<lparr>JSON_parse = example_parse,
      zodErrorText = (\<lambda>v. ''ZodError: invalid_type''),
      chat_completions_create = (\<lambda>p. Inr [Some content]),
      cuid = (\<lambda>n. ''new'' @ replicate n (CHR ''+''))\<rparr>"

definition example_link :: link where
  "example_link = \<lparr>link_id = ''l1'', url = ''https://example.com/a'', description = Some ''An article''\<rparr>"

definition example_bookmark :: bookmark where
  "example_bookmark = \<lparr>bm_id = ''b1'', bm_userId = ''u1'', bm_link = Some example_link\<rparr>"

text \<open>
  User u1 owns the bookmark b1 and a tag named foo; b2 has no link and the link of b3
  has no description.
\<close>

definition example_world :: "string option \<Rightarrow> string option \<Rightarrow> world" where
  "example_world k e =
     \<lparr>OPENAI_API_KEY = k,
      OPENAI_ENABLED = e,
      bookmarks =
        [example_bookmark,
         \<lparr>bm_id = ''b2'', bm_userId = ''u1'', bm_link = None\<rparr>,
         \<lparr>bm_id = ''b3'', bm_userId = ''u1'',
          bm_link = Some \<lparr>link_id = ''l3'', url = ''https://example.com/c'', description = None\<rparr>\<rparr>],
      bookmarkTags = [\<lparr>tag_id = ''t1'', tag_name = ''foo'', tag_userId = ''u1''\<rparr>],
      tagsOnBookmarks = [],
      idCounter = 0,
      trace = []\<rparr>"

definition world_on :: world where
  "world_on = example_world (Some ''sk-test'') (Some ''true'')"

definition world_off :: world where
  "world_off = example_world None None"

definition job_for :: "string \<Rightarrow> job" where
  "job_for bid = \<lparr>job_id = Some ''42'', job_data = JObject [(''bookmarkId'', JString bid)]\<rparr>"

definition job_malformed :: job where
  "job_malformed = \<lparr>job_id = Some ''42'', job_data = JObject []\<rparr>"

section \<open>Properties of the handler\<close>

subsection \<open>Lemmas about the single steps\<close>

lemma truthy_simps [simp]: "truthy None = False" "truthy (Some v) = (v \<noteq> [])"
  by (simp_all add: truthy_def)

lemma Promise_all_Inr_map [simp]: "Promise_all (map Inr xs) = Inr xs"
  by (induction xs) simp_all

lemma inferTags_frame:
  assumes "inferTags ext jid l w = (r, w')"
  shows "\<exists>evs. w' = w\<lparr>trace := trace w @ evs\<rparr>"
proof -
  have "w' = w \<or> (\<exists>p. w' = w\<lparr>trace := trace w @ [ChatCompletionsCreate p]\<rparr>)"
    using assms
    by (auto simp: inferTags_def Let_def split: option.splits sum.splits list.splits if_splits)
  moreover have "w = w\<lparr>trace := trace w @ []\<rparr>" by simp
  ultimately show ?thesis by metis
qed

lemma map_requests_connect:
  "map_requests (\<lambda>i. tagsOnBookmarks_create \<lparr>tagId = i, bookmarkId = bid, attachedBy = ''ai''\<rparr>) ids w =
     (map (\<lambda>i. Inr \<lparr>tagId = i, bookmarkId = bid, attachedBy = ''ai''\<rparr>) ids,
      w\<lparr>tagsOnBookmarks :=
          tagsOnBookmarks w @ map (\<lambda>i. \<lparr>tagId = i, bookmarkId = bid, attachedBy = ''ai''\<rparr>) ids,
        trace := trace w @ map (\<lambda>i. TagsOnBookmarksCreate i bid ''ai'') ids\<rparr>)"
proof (induction ids arbitrary: w)
  case Nil
  show ?case by simp
next
  case (Cons i ids)
  show ?case using Cons.IH by (simp add: tagsOnBookmarks_create_def)
qed

lemma connectTags_eq:
  "connectTags bid ids w =
     (Inr (),
      w\<lparr>tagsOnBookmarks :=
          tagsOnBookmarks w @ map (\<lambda>i. \<lparr>tagId = i, bookmarkId = bid, attachedBy = ''ai''\<rparr>) ids,
        trace := trace w @ map (\<lambda>i. TagsOnBookmarksCreate i bid ''ai'') ids\<rparr>)"
proof -
  have "Promise_all (map (\<lambda>i. Inr \<lparr>tagId = i, bookmarkId = bid, attachedBy = ''ai''\<rparr>) ids) =
        (Inr (map (\<lambda>i. \<lparr>tagId = i, bookmarkId = bid, attachedBy = ''ai''\<rparr>) ids) :: error + tagOnBookmark list)"
    using Promise_all_Inr_map [of "map (\<lambda>i. \<lparr>tagId = i, bookmarkId = bid, attachedBy = ''ai''\<rparr>) ids"]
    by (simp add: comp_def)
  then show ?thesis
    by (simp add: connectTags_def map_requests_connect)
qed

text \<open>The names the handler asks to create: those of which the user has no tag.\<close>

lemma existingTagSet_iff:
  assumes "n \<in> set names"
  shows "n \<in> set (map tag_name (filter (\<lambda>t. tag_userId t = u \<and> tag_name t \<in> set names) ts)) \<longleftrightarrow>
         list_ex (\<lambda>t. tag_userId t = u \<and> tag_name t = n) ts"
  using assms by (auto simp: list_ex_iff)

lemma newTags_eq:
  "filter (\<lambda>n. n \<notin> set (map tag_name (filter (\<lambda>t. tag_userId t = u \<and> tag_name t \<in> set names) ts))) names =
   filter (\<lambda>n. \<not> list_ex (\<lambda>t. tag_userId t = u \<and> tag_name t = n) ts) names"
  by (rule filter_cong [OF refl]) (simp only: existingTagSet_iff)

lemma createTags_eq:
  "createTags ext names u w =
     (case map_requests (\<lambda>t. bookmarkTags_create ext t u)
             (filter (\<lambda>n. \<not> list_ex (\<lambda>t. tag_userId t = u \<and> tag_name t = n) (bookmarkTags w)) names)
             (w\<lparr>trace := trace w @ [BookmarkTagsFindMany u names]\<rparr>) of
        (promises, w2) \<Rightarrow>
          (case Promise_all promises of
             Inl e \<Rightarrow> (Inl e, w2)
           | Inr newTagObjects \<Rightarrow>
               (Inr (map tag_id (filter (\<lambda>t. tag_userId t = u \<and> tag_name t \<in> set names) (bookmarkTags w)) @
                     map tag_id newTagObjects), w2)))"
  by (simp add: createTags_def bookmarkTags_findMany_def Let_def newTags_eq del: set_map)


lemma bookmarkTags_create_frame:
  assumes "bookmarkTags_create ext n u w = (r, w1)"
  shows "bookmarks w1 = bookmarks w \<and> tagsOnBookmarks w1 = tagsOnBookmarks w \<and>
         prefix (bookmarkTags w) (bookmarkTags w1)"
  using assms by (auto simp: bookmarkTags_create_def Let_def split: if_splits)

lemma bookmarkTags_create_Inl:
  assumes "bookmarkTags_create ext n u w = (Inl e, w1)"
  shows "e = UniqueConstraintFailed"
  using assms by (auto simp: bookmarkTags_create_def Let_def split: if_splits)

lemma bookmarkTags_create_Inr:
  assumes "bookmarkTags_create ext n u w = (Inr t, w1)"
  shows "tag_name t = n \<and> tag_userId t = u \<and> t \<in> set (bookmarkTags w1)"
  using assms by (auto simp: bookmarkTags_create_def Let_def split: if_splits)

lemma create_all_frame:
  assumes "map_requests (\<lambda>t. bookmarkTags_create ext t u) ns w = (ps, w')"
  shows "bookmarks w' = bookmarks w \<and> tagsOnBookmarks w' = tagsOnBookmarks w \<and>
         prefix (bookmarkTags w) (bookmarkTags w')"
  using assms
proof (induction ns arbitrary: w ps w')
  case Nil
  then show ?case by simp
next
  case (Cons n ns)
  obtain r w1 where r: "bookmarkTags_create ext n u w = (r, w1)"
    by (cases "bookmarkTags_create ext n u w")
  obtain rs w2 where rs: "map_requests (\<lambda>t. bookmarkTags_create ext t u) ns w1 = (rs, w2)"
    by (cases "map_requests (\<lambda>t. bookmarkTags_create ext t u) ns w1")
  from Cons.prems r rs have w': "w' = w2" by simp
  from Cons.IH [OF rs] bookmarkTags_create_frame [OF r] show ?case
    unfolding w' by (auto intro: prefix_order.trans)
qed

lemma create_all_Inl:
  assumes "map_requests (\<lambda>t. bookmarkTags_create ext t u) ns w = (ps, w')"
    and "Promise_all ps = Inl e"
  shows "e = UniqueConstraintFailed"
  using assms
proof (induction ns arbitrary: w ps w')
  case Nil
  then show ?case by simp
next
  case (Cons n ns)
  obtain r w1 where r: "bookmarkTags_create ext n u w = (r, w1)"
    by (cases "bookmarkTags_create ext n u w")
  obtain rs w2 where rs: "map_requests (\<lambda>t. bookmarkTags_create ext t u) ns w1 = (rs, w2)"
    by (cases "map_requests (\<lambda>t. bookmarkTags_create ext t u) ns w1")
  from Cons.prems(1) r rs have ps: "ps = r # rs" by simp
  show ?case
  proof (cases r)
    case (Inl e')
    with Cons.prems(2) ps have "e = e'" by simp
    with r Inl show ?thesis by (simp add: bookmarkTags_create_Inl)
  next
    case (Inr t)
    with Cons.prems(2) ps have "Promise_all rs = Inl e"
      by (simp split: sum.splits)
    with Cons.IH [OF rs] show ?thesis .
  qed
qed

lemma create_all_Inr:
  assumes "map_requests (\<lambda>t. bookmarkTags_create ext t u) ns w = (ps, w')"
    and "Promise_all ps = Inr objs"
  shows "map tag_name objs = ns \<and> (\<forall>t\<in>set objs. tag_userId t = u \<and> t \<in> set (bookmarkTags w'))"
  using assms
proof (induction ns arbitrary: w ps objs w')
  case Nil
  then show ?case by auto
next
  case (Cons n ns)
  obtain r w1 where r: "bookmarkTags_create ext n u w = (r, w1)"
    by (cases "bookmarkTags_create ext n u w")
  obtain rs w2 where rs: "map_requests (\<lambda>t. bookmarkTags_create ext t u) ns w1 = (rs, w2)"
    by (cases "map_requests (\<lambda>t. bookmarkTags_create ext t u) ns w1")
  from Cons.prems(1) r rs have ps: "ps = r # rs" and w': "w' = w2" by simp_all
  from Cons.prems(2) ps obtain t ts where
    t: "r = Inr t" and ts: "Promise_all rs = Inr ts" and objs: "objs = t # ts"
    by (cases r) (auto split: sum.splits)
  from r t have one: "tag_name t = n \<and> tag_userId t = u \<and> t \<in> set (bookmarkTags w1)"
    by (simp add: bookmarkTags_create_Inr)
  from create_all_frame [OF rs] have "set (bookmarkTags w1) \<subseteq> set (bookmarkTags w2)"
    by (auto dest: set_mono_prefix)
  with one Cons.IH [OF rs ts] show ?case
    unfolding objs w' by auto
qed

lemma createTags_frame:
  assumes "createTags ext names u w = (r, w')"
  shows "bookmarks w' = bookmarks w \<and> tagsOnBookmarks w' = tagsOnBookmarks w \<and>
         prefix (bookmarkTags w) (bookmarkTags w')"
proof -
  obtain ps w2 where ps:
    "map_requests (\<lambda>t. bookmarkTags_create ext t u)
       (filter (\<lambda>n. \<not> list_ex (\<lambda>t. tag_userId t = u \<and> tag_name t = n) (bookmarkTags w)) names)
       (w\<lparr>trace := trace w @ [BookmarkTagsFindMany u names]\<rparr>) = (ps, w2)"
    by (cases "map_requests (\<lambda>t. bookmarkTags_create ext t u)
       (filter (\<lambda>n. \<not> list_ex (\<lambda>t. tag_userId t = u \<and> tag_name t = n) (bookmarkTags w)) names)
       (w\<lparr>trace := trace w @ [BookmarkTagsFindMany u names]\<rparr>)")
  with assms have "w' = w2"
    by (simp add: createTags_eq split: sum.splits)
  with create_all_frame [OF ps] show ?thesis by simp
qed

lemma createTags_Inl:
  assumes "createTags ext names u w = (Inl e, w')"
  shows "e = UniqueConstraintFailed"
proof -
  obtain ps w2 where ps:
    "map_requests (\<lambda>t. bookmarkTags_create ext t u)
       (filter (\<lambda>n. \<not> list_ex (\<lambda>t. tag_userId t = u \<and> tag_name t = n) (bookmarkTags w)) names)
       (w\<lparr>trace := trace w @ [BookmarkTagsFindMany u names]\<rparr>) = (ps, w2)"
    by (cases "map_requests (\<lambda>t. bookmarkTags_create ext t u)
       (filter (\<lambda>n. \<not> list_ex (\<lambda>t. tag_userId t = u \<and> tag_name t = n) (bookmarkTags w)) names)
       (w\<lparr>trace := trace w @ [BookmarkTagsFindMany u names]\<rparr>)")
  with assms have "Promise_all ps = Inl e"
    by (simp add: createTags_eq split: sum.splits)
  with create_all_Inl [OF ps] show ?thesis .
qed

text \<open>
  When createTags returns, the user has a tag for every name of the list, and its
  identifier is among those returned.
\<close>

lemma createTags_Inr:
  assumes "createTags ext names u w = (Inr ids, w')" and "n \<in> set names"
  shows "\<exists>t\<in>set (bookmarkTags w'). tag_userId t = u \<and> tag_name t = n \<and> tag_id t \<in> set ids"
proof -
  let ?new = "filter (\<lambda>n. \<not> list_ex (\<lambda>t. tag_userId t = u \<and> tag_name t = n) (bookmarkTags w)) names"
  let ?old = "filter (\<lambda>t. tag_userId t = u \<and> tag_name t \<in> set names) (bookmarkTags w)"
  obtain ps w2 where ps:
    "map_requests (\<lambda>t. bookmarkTags_create ext t u) ?new
       (w\<lparr>trace := trace w @ [BookmarkTagsFindMany u names]\<rparr>) = (ps, w2)"
    by (cases "map_requests (\<lambda>t. bookmarkTags_create ext t u) ?new
       (w\<lparr>trace := trace w @ [BookmarkTagsFindMany u names]\<rparr>)")
  with assms(1) obtain objs where objs: "Promise_all ps = Inr objs"
    and w': "w' = w2" and ids: "ids = map tag_id ?old @ map tag_id objs"
    by (auto simp: createTags_eq split: sum.splits)
  from create_all_frame [OF ps] have kept: "set (bookmarkTags w) \<subseteq> set (bookmarkTags w2)"
    by (auto dest: set_mono_prefix)
  show ?thesis
  proof (cases "list_ex (\<lambda>t. tag_userId t = u \<and> tag_name t = n) (bookmarkTags w)")
    case True
    then obtain t where t: "t \<in> set (bookmarkTags w)" "tag_userId t = u" "tag_name t = n"
      by (auto simp: list_ex_iff)
    with assms(2) have "t \<in> set ?old" by simp
    then have "tag_id t \<in> set ids" unfolding ids by simp
    with t kept show ?thesis unfolding w' by auto
  next
    case False
    with assms(2) have "n \<in> set ?new" by simp
    with create_all_Inr [OF ps objs] have "n \<in> set (map tag_name objs)" by simp
    then obtain t where t: "t \<in> set objs" "tag_name t = n" by auto
    with create_all_Inr [OF ps objs] have "tag_userId t = u" "t \<in> set (bookmarkTags w2)" by auto
    moreover from t have "tag_id t \<in> set ids" unfolding ids by simp
    ultimately show ?thesis using t unfolding w' by auto
  qed
qed

lemma chat_requests_append: "chat_requests (xs @ ys) = chat_requests xs @ chat_requests ys"
  by (induction xs rule: chat_requests.induct) simp_all

lemma sublist_openai_prefix: "sublist jid (openai_prefix jid @ rest)"
  unfolding openai_prefix_def sublist_def by (metis append.assoc)

lemma runOpenAI_infer:
  assumes "truthy (OPENAI_API_KEY w)" and "truthy (OPENAI_ENABLED w)"
    and "zOpenAIRequestSchema (job_data j) = Some bid"
    and "fst (fetchBookmark bid w) = Some b"
    and "bm_link b = Some l"
  shows "runOpenAI ext j w =
           (case inferTags ext (jobId_of j) l (snd (fetchBookmark bid w)) of
              (Inl e, w2) \<Rightarrow> (Inl e, w2)
            | (Inr tags, w2) \<Rightarrow>
                (case createTags ext tags (bm_userId b) w2 of
                   (Inl e, w3) \<Rightarrow> (Inl e, w3)
                 | (Inr tagIds, w3) \<Rightarrow> connectTags bid tagIds w3))"
  using assms by (simp add: runOpenAI_def fetchBookmark_def)

lemma inferTags_parsed:
  assumes "description l = Some d" and "d \<noteq> []"
    and "chat_completions_create ext (buildPrompt (url l) d) = Inr (Some c # others)"
    and "c \<noteq> []"
    and "JSON_parse ext c = Inr v"
    and "openAIResponseSchema v = Some ts"
  shows "inferTags ext jid l w =
           (Inr (map stripHashtag ts),
            w\<lparr>trace := trace w @ [ChatCompletionsCreate (buildPrompt (url l) d)]\<rparr>)"
  using assms by (simp add: inferTags_def Let_def)

lemma inferTags_malformed:
  assumes "description l = Some d" and "d \<noteq> []"
    and "chat_completions_create ext (buildPrompt (url l) d) = Inr (Some c # others)"
    and "c = [] \<or> (\<exists>e. JSON_parse ext c = Inl e) \<or>
         (\<exists>v. JSON_parse ext c = Inr v \<and> openAIResponseSchema v = None)"
  shows "\<exists>rest. fst (inferTags ext jid l w) = Inl (Error (openai_prefix jid @ rest))"
  using assms by (auto simp: inferTags_def Let_def)

lemma those_map_z_string: "those (map (z_string \<circ> JString) ts) = Some ts"
  by (induction ts) simp_all

lemma schema_tags_value: "openAIResponseSchema (tags_value ts) = Some ts"
  by (simp add: tags_value_def those_map_z_string)

lemma inferTags_no_storage_error:
  assumes "inferTags ext jid l w = (Inl e, w')"
  shows "e \<noteq> UniqueConstraintFailed"
  using assms
  by (auto simp: inferTags_def Let_def split: option.splits sum.splits list.splits if_splits)

lemma createTags_one_new:
  assumes "filter (\<lambda>n. \<not> owns w u n) names = [n]"
  shows "createTags ext names u w =
           (Inr (map tag_id (filter (\<lambda>t. tag_userId t = u \<and> tag_name t \<in> set names) (bookmarkTags w)) @
                 [cuid ext (idCounter w)]),
            w\<lparr>trace := trace w @ [BookmarkTagsFindMany u names, BookmarkTagsCreate n u],
              bookmarkTags :=
                bookmarkTags w @ [\<lparr>tag_id = cuid ext (idCounter w), tag_name = n, tag_userId = u\<rparr>],
              idCounter := Suc (idCounter w)\<rparr>)"
proof -
  have "n \<in> set (filter (\<lambda>n. \<not> owns w u n) names)"
    unfolding assms by simp
  then have new: "\<not> list_ex (\<lambda>t. tag_userId t = u \<and> tag_name t = n) (bookmarkTags w)"
    by (simp add: owns_def)
  from assms have f:
    "filter (\<lambda>n. \<not> list_ex (\<lambda>t. tag_userId t = u \<and> tag_name t = n) (bookmarkTags w)) names = [n]"
    by (simp add: owns_def)
  show ?thesis
    unfolding createTags_eq f using new
    by (simp add: bookmarkTags_create_def Let_def)
qed

text \<open>Every way a run of the handler can end.\<close>

lemma runOpenAI_outcome:
  assumes "runOpenAI ext j w = (r, w')"
  shows "(r \<noteq> Inl UniqueConstraintFailed \<and>
          (r = Inr () \<longrightarrow> \<not> (truthy (OPENAI_API_KEY w) \<and> truthy (OPENAI_ENABLED w))) \<and>
          bookmarks w' = bookmarks w \<and> bookmarkTags w' = bookmarkTags w \<and>
          tagsOnBookmarks w' = tagsOnBookmarks w) \<or>
         (r = Inl UniqueConstraintFailed \<and>
          bookmarks w' = bookmarks w \<and> prefix (bookmarkTags w) (bookmarkTags w') \<and>
          tagsOnBookmarks w' = tagsOnBookmarks w) \<or>
         (r = Inr () \<and>
          (\<exists>bid b l tags w2 ids w3.
              zOpenAIRequestSchema (job_data j) = Some bid \<and>
              fst (fetchBookmark bid w) = Some b \<and> bm_link b = Some l \<and>
              inferTags ext (jobId_of j) l (snd (fetchBookmark bid w)) = (Inr tags, w2) \<and>
              createTags ext tags (bm_userId b) w2 = (Inr ids, w3) \<and>
              bookmarks w3 = bookmarks w \<and> prefix (bookmarkTags w) (bookmarkTags w3) \<and>
              tagsOnBookmarks w3 = tagsOnBookmarks w \<and>
              w' = snd (connectTags bid ids w3)))"
proof (cases "truthy (OPENAI_API_KEY w) \<and> truthy (OPENAI_ENABLED w)")
  case False
  with assms show ?thesis by (auto simp: runOpenAI_def)
next
  case gate: True
  show ?thesis
  proof (cases "zOpenAIRequestSchema (job_data j)")
    case None
    with assms gate show ?thesis by (auto simp: runOpenAI_def)
  next
    case (Some bid)
    note payload = this
    show ?thesis
    proof (cases "fst (fetchBookmark bid w)")
      case None
      with assms gate payload show ?thesis
        by (auto simp: runOpenAI_def fetchBookmark_def)
    next
      case (Some b)
      note found = this
      show ?thesis
      proof (cases "bm_link b")
        case None
        with assms gate payload found show ?thesis
          by (auto simp: runOpenAI_def fetchBookmark_def)
      next
        case (Some l)
        note run = runOpenAI_infer [OF conjunct1 [OF gate] conjunct2 [OF gate] payload found Some]
        obtain ri w2 where infer:
          "inferTags ext (jobId_of j) l (snd (fetchBookmark bid w)) = (ri, w2)"
          by (cases "inferTags ext (jobId_of j) l (snd (fetchBookmark bid w))")
        from inferTags_frame [OF infer] have w2:
          "bookmarks w2 = bookmarks w" "bookmarkTags w2 = bookmarkTags w"
          "tagsOnBookmarks w2 = tagsOnBookmarks w"
          by (auto simp: fetchBookmark_def)
        show ?thesis
        proof (cases ri)
          case (Inl e)
          with assms run infer have "r = Inl e" "w' = w2" by simp_all
          moreover from infer Inl have "e \<noteq> UniqueConstraintFailed"
            by (simp add: inferTags_no_storage_error)
          ultimately show ?thesis using w2 by simp
        next
          case (Inr tags)
          obtain rc w3 where create: "createTags ext tags (bm_userId b) w2 = (rc, w3)"
            by (cases "createTags ext tags (bm_userId b) w2")
          from createTags_frame [OF create] w2 have w3:
            "bookmarks w3 = bookmarks w" "prefix (bookmarkTags w) (bookmarkTags w3)"
            "tagsOnBookmarks w3 = tagsOnBookmarks w"
            by simp_all
          show ?thesis
          proof (cases rc)
            case (Inl e)
            with assms run infer Inr create have "r = Inl e" "w' = w3" by simp_all
            moreover from create Inl have "e = UniqueConstraintFailed"
              by (simp add: createTags_Inl)
            ultimately show ?thesis using w3 by simp
          next
            case ids: (Inr ids)
            with assms run infer Inr create have
              "r = Inr ()" "w' = snd (connectTags bid ids w3)"
              by (simp_all add: connectTags_eq)
            with payload found Some infer Inr create ids w3 show ?thesis by blast
          qed
        qed
      qed
    qed
  qed
qed

subsection \<open>Facts about the concrete jobs and worlds\<close>

lemma world_on_key: "truthy (OPENAI_API_KEY world_on)"
  by (simp add: world_on_def example_world_def)

lemma world_on_enabled: "truthy (OPENAI_ENABLED world_on)"
  by (simp add: world_on_def example_world_def)

lemma job_for_payload: "zOpenAIRequestSchema (job_data (job_for bid)) = Some bid"
  by (simp add: job_for_def)

lemma job_for_jobId: "jobId_of (job_for bid) = ''42''"
  by (simp add: jobId_of_def job_for_def)

lemma world_on_b1: "fst (fetchBookmark ''b1'' world_on) = Some example_bookmark"
  by (simp add: fetchBookmark_def world_on_def example_world_def example_bookmark_def)

lemma world_on_b9: "fst (fetchBookmark ''b9'' world_on) = None"
  by (simp add: fetchBookmark_def world_on_def example_world_def example_bookmark_def)

lemma example_bookmark_link: "bm_link example_bookmark = Some example_link"
  by (simp add: example_bookmark_def)

lemma example_bookmark_user: "bm_userId example_bookmark = ''u1''"
  by (simp add: example_bookmark_def)

lemma example_link_description: "description example_link = Some ''An article''"
  by (simp add: example_link_def)

lemma example_ext_chat: "chat_completions_create (example_ext c) p = Inr (Some c # [])"
  by (simp add: example_ext_def)

lemma example_parse_foo_baz:
  "JSON_parse (example_ext c) (tags_text [''foo'', ''baz'']) = Inr (tags_value [''foo'', ''baz''])"
  by (simp add: example_ext_def example_parse_def tags_text_def quoted_def)

lemma example_parse_hash:
  "JSON_parse (example_ext c) (tags_text [''#'']) = Inr (tags_value [''#''])"
  by (simp add: example_ext_def example_parse_def tags_text_def quoted_def)

lemma example_parse_hash_foo_bar:
  "JSON_parse (example_ext c) (tags_text [''#foo'', ''bar'']) = Inr (tags_value [''#foo'', ''bar''])"
  by (simp add: example_ext_def example_parse_def tags_text_def quoted_def)

lemma example_parse_not_json:
  "JSON_parse (example_ext c) ''not json'' = Inl ''SyntaxError: Unexpected token''"
  by (simp add: example_ext_def example_parse_def tags_text_def quoted_def)

lemma tags_text_nonempty: "tags_text ts \<noteq> []"
  by (simp add: tags_text_def)

subsection \<open>The configuration gate\<close>

text \<open>
  Claim C4. If OPENAI_API_KEY or OPENAI_ENABLED is unset (or the empty string, which
  JavaScript treats alike), the handler returns normally and leaves the world as it
  found it: no row is read or written and no request is sent, neither to the storage
  layer nor to the chat-completion API, since every request would extend the trace.
\<close>

theorem unconfigured_is_silent_noop:
  assumes "\<not> truthy (OPENAI_API_KEY w) \<or> \<not> truthy (OPENAI_ENABLED w)"
  shows "runOpenAI ext j w = (Inr (), w)"
  using assms by (auto simp: runOpenAI_def)

text \<open>With both variables unset the job for bookmark b1 changes nothing.\<close>

theorem unconfigured_is_silent_noop_witness:
  "\<not> truthy (OPENAI_API_KEY world_off) \<and>
   runOpenAI (example_ext (tags_text [''foo'', ''baz''])) (job_for ''b1'') world_off = (Inr (), world_off)"
  using unconfigured_is_silent_noop
          [of world_off "example_ext (tags_text [''foo'', ''baz''])" "job_for ''b1''"]
  by (simp add: world_off_def example_world_def)

text \<open>
  Claim C3, as stated, puts the validation of the payload before the configuration
  gate, so that a malformed payload would throw even when the integration is not
  configured. The handler checks the gate first: the payload without a bookmarkId is
  rejected by the schema, and yet the handler returns normally when the key is unset.
\<close>

theorem malformed_payload_unconfigured_counterexample:
  "zOpenAIRequestSchema (job_data job_malformed) = None \<and>
   OPENAI_API_KEY world_off = None \<and>
   fst (runOpenAI (example_ext ''not json'') job_malformed world_off) = Inr ()"
  by (simp add: job_malformed_def world_off_def example_world_def runOpenAI_def)

text \<open>
  Claim C3, amended. The handler first short-circuits silently when the API key or the
  enabled flag is unset and validates the payload only afterwards: a job with a
  malformed payload throws (an error with the job id and the text of the schema
  error, before any request is sent) exactly when both variables are set, and
  returns normally otherwise.
\<close>

theorem gate_before_validation:
  assumes "zOpenAIRequestSchema (job_data j) = None"
  shows "runOpenAI ext j w =
           (if truthy (OPENAI_API_KEY w) \<and> truthy (OPENAI_ENABLED w)
            then (Inl (Error (openai_prefix (jobId_of j) @ ''Got malformed job request: '' @
                              zodErrorText ext (job_data j))), w)
            else (Inr (), w))"
  using assms by (simp add: runOpenAI_def)

text \<open>The payload without a bookmarkId: thrown with the gate open, ignored with it closed.\<close>

theorem gate_before_validation_witness:
  "zOpenAIRequestSchema (job_data job_malformed) = None \<and>
   runOpenAI (example_ext ''not json'') job_malformed world_on =
     (Inl (Error ''[openai][42] Got malformed job request: ZodError: invalid_type''), world_on) \<and>
   runOpenAI (example_ext ''not json'') job_malformed world_off = (Inr (), world_off)"
proof -
  have m: "zOpenAIRequestSchema (job_data job_malformed) = None"
    by (simp add: job_malformed_def)
  show ?thesis
    using m gate_before_validation [OF m, of "example_ext ''not json''" world_on]
      gate_before_validation [OF m, of "example_ext ''not json''" world_off]
    by (simp add: world_on_def world_off_def example_world_def example_ext_def
        openai_prefix_def jobId_of_def job_malformed_def)
qed

subsection \<open>Failures before and after the AI request\<close>

text \<open>
  Claim C5, as stated, holds for every job whose bookmark is missing, without regard
  to the configuration. The gate comes first in the handler: with the variables unset,
  the job for the missing bookmark b9 returns normally instead of throwing.
\<close>

theorem missing_bookmark_unconfigured_counterexample:
  "zOpenAIRequestSchema (job_data (job_for ''b9'')) = Some ''b9'' \<and>
   fst (fetchBookmark ''b9'' world_off) = None \<and>
   fst (runOpenAI (example_ext (tags_text [''foo'', ''baz''])) (job_for ''b9'') world_off) = Inr ()"
  by (simp add: job_for_def world_off_def example_world_def example_bookmark_def runOpenAI_def
      fetchBookmark_def)

text \<open>
  Claim C5, amended. When the API key and the enabled flag are both set, for every
  job whose (well-formed) payload names a bookmark that is missing, that has no link,
  or whose link has an absent or empty description, the handler throws an error, and
  the only request it has sent by then is the lookup of the bookmark: the
  chat-completion API is never called.
\<close>

theorem unusable_bookmark_throws_before_ai:
  assumes "truthy (OPENAI_API_KEY w)" and "truthy (OPENAI_ENABLED w)"
    and "zOpenAIRequestSchema (job_data j) = Some bid"
    and "fst (fetchBookmark bid w) = None \<or>
         (\<exists>b. fst (fetchBookmark bid w) = Some b \<and>
              (bm_link b = None \<or>
               (\<exists>l. bm_link b = Some l \<and> (description l = None \<or> description l = Some []))))"
  shows "\<exists>msg. runOpenAI ext j w =
                 (Inl (Error msg), w\<lparr>trace := trace w @ [BookmarkFindUnique bid]\<rparr>) \<and>
               chat_requests (trace (snd (runOpenAI ext j w))) = chat_requests (trace w)"
  using assms
  by (auto simp: runOpenAI_def fetchBookmark_def inferTags_def chat_requests_append)

text \<open>The job for the missing bookmark b9, with the integration configured.\<close>

theorem unusable_bookmark_throws_before_ai_witness:
  "fst (fetchBookmark ''b9'' world_on) = None \<and>
   fst (runOpenAI (example_ext (tags_text [''foo'', ''baz''])) (job_for ''b9'') world_on) =
     Inl (Error ''[openai][42] bookmark with id b9 was not found'') \<and>
   chat_requests
     (trace (snd (runOpenAI (example_ext (tags_text [''foo'', ''baz''])) (job_for ''b9'') world_on))) = []"
proof -
  from unusable_bookmark_throws_before_ai
         [OF world_on_key world_on_enabled job_for_payload disjI1 [OF world_on_b9],
          of "example_ext (tags_text [''foo'', ''baz''])"]
  have c: "chat_requests
             (trace (snd (runOpenAI (example_ext (tags_text [''foo'', ''baz''])) (job_for ''b9'') world_on))) =
           chat_requests (trace world_on)"
    by blast
  have t: "chat_requests (trace world_on) = []"
    by (simp add: world_on_def example_world_def)
  have "fst (runOpenAI (example_ext (tags_text [''foo'', ''baz''])) (job_for ''b9'') world_on) =
     Inl (Error ''[openai][42] bookmark with id b9 was not found'')"
    by (simp add: runOpenAI_def fetchBookmark_def world_on_def example_world_def
        example_bookmark_def job_for_def jobId_of_def openai_prefix_def)
  with world_on_b9 c t show ?thesis by simp
qed

text \<open>
  Claim C6. When the first choice of the AI response has a message content that is not
  valid JSON (the empty text included, which the handler rejects before parsing), or
  whose parsed JSON does not match the schema with a "tags" array of strings, the
  handler throws an error whose message contains the job id, that is
  \<^verbatim>\<open>job.id || "unknown"\<close>.
\<close>

theorem malformed_response_error_has_job_id:
  assumes "truthy (OPENAI_API_KEY w)" and "truthy (OPENAI_ENABLED w)"
    and "zOpenAIRequestSchema (job_data j) = Some bid"
    and "fst (fetchBookmark bid w) = Some b"
    and "bm_link b = Some l"
    and "description l = Some d" and "d \<noteq> []"
    and "chat_completions_create ext (buildPrompt (url l) d) = Inr (Some c # others)"
    and "c = [] \<or> (\<exists>e. JSON_parse ext c = Inl e) \<or>
         (\<exists>v. JSON_parse ext c = Inr v \<and> openAIResponseSchema v = None)"
  shows "\<exists>msg. fst (runOpenAI ext j w) = Inl (Error msg) \<and> sublist (jobId_of j) msg"
proof -
  from inferTags_malformed [OF assms(6-9)]
  obtain rest where
    "fst (inferTags ext (jobId_of j) l (snd (fetchBookmark bid w))) =
       Inl (Error (openai_prefix (jobId_of j) @ rest))"
    by blast
  then have "fst (runOpenAI ext j w) = Inl (Error (openai_prefix (jobId_of j) @ rest))"
    by (cases "inferTags ext (jobId_of j) l (snd (fetchBookmark bid w))")
       (simp add: runOpenAI_infer [OF assms(1-5)])
  then show ?thesis
    using sublist_openai_prefix by blast
qed

text \<open>The answer "not json" to job 42 gives an error message that contains 42.\<close>

theorem malformed_response_error_has_job_id_witness:
  "JSON_parse (example_ext ''not json'') ''not json'' = Inl ''SyntaxError: Unexpected token'' \<and>
   jobId_of (job_for ''b1'') = ''42'' \<and>
   (\<exists>msg. fst (runOpenAI (example_ext ''not json'') (job_for ''b1'') world_on) = Inl (Error msg) \<and>
          sublist ''42'' msg)"
proof -
  have n: "''An article'' \<noteq> []" by simp
  have bad: "''not json'' = [] \<or> (\<exists>e. JSON_parse (example_ext ''not json'') ''not json'' = Inl e) \<or>
         (\<exists>v. JSON_parse (example_ext ''not json'') ''not json'' = Inr v \<and> openAIResponseSchema v = None)"
    using example_parse_not_json by blast
  from malformed_response_error_has_job_id
         [OF world_on_key world_on_enabled job_for_payload world_on_b1 example_bookmark_link
             example_link_description n example_ext_chat bad]
       example_parse_not_json job_for_jobId
  show ?thesis by simp
qed

subsection \<open>From the AI response to the stored tags\<close>

text \<open>
  Claim C2. When the parsed JSON of the AI response is {"tags":["#foo","bar"]}, the
  tag names that inferTags returns, and that the handler passes on to createTags for
  storage, are exactly ["foo","bar"]: the leading hashtag of the first is removed, the
  second is unchanged.
\<close>

theorem hashtag_response_stored_stripped:
  assumes "truthy (OPENAI_API_KEY w)" and "truthy (OPENAI_ENABLED w)"
    and "zOpenAIRequestSchema (job_data j) = Some bid"
    and "fst (fetchBookmark bid w) = Some b"
    and "bm_link b = Some l"
    and "description l = Some d" and "d \<noteq> []"
    and "chat_completions_create ext (buildPrompt (url l) d) = Inr (Some c # others)"
    and "c \<noteq> []"
    and "JSON_parse ext c = Inr (JObject [(''tags'', JArray [JString ''#foo'', JString ''bar''])])"
  shows "fst (inferTags ext (jobId_of j) l (snd (fetchBookmark bid w))) = Inr [''foo'', ''bar''] \<and>
         runOpenAI ext j w =
           (case createTags ext [''foo'', ''bar''] (bm_userId b)
                   (snd (inferTags ext (jobId_of j) l (snd (fetchBookmark bid w)))) of
              (Inl e, w3) \<Rightarrow> (Inl e, w3)
            | (Inr tagIds, w3) \<Rightarrow> connectTags bid tagIds w3)"
proof -
  have s: "openAIResponseSchema (JObject [(''tags'', JArray [JString ''#foo'', JString ''bar''])]) =
             Some [''#foo'', ''bar'']"
    by simp
  have "map stripHashtag [''#foo'', ''bar''] = [''foo'', ''bar'']"
    by (simp add: stripHashtag_def startsWith_def slice_def)
  with inferTags_parsed [OF assms(6-10) s]
  have "inferTags ext (jobId_of j) l (snd (fetchBookmark bid w)) =
          (Inr [''foo'', ''bar''],
           (snd (fetchBookmark bid w))
             \<lparr>trace := trace (snd (fetchBookmark bid w)) @ [ChatCompletionsCreate (buildPrompt (url l) d)]\<rparr>)"
    by simp
  then show ?thesis
    by (simp add: runOpenAI_infer [OF assms(1-5)])
qed

text \<open>
  The text {"tags":["#foo","bar"]} as the answer to the job for b1: the names are
  foo and bar, and since user u1 has a tag foo, bar is the one that is created.
\<close>

theorem hashtag_response_stored_stripped_witness:
  "JSON_parse (example_ext (tags_text [''#foo'', ''bar''])) (tags_text [''#foo'', ''bar'']) =
     Inr (JObject [(''tags'', JArray [JString ''#foo'', JString ''bar''])]) \<and>
   fst (inferTags (example_ext (tags_text [''#foo'', ''bar''])) ''42'' example_link
          (snd (fetchBookmark ''b1'' world_on))) = Inr [''foo'', ''bar''] \<and>
   create_requests ''u1''
     (trace (snd (runOpenAI (example_ext (tags_text [''#foo'', ''bar''])) (job_for ''b1'') world_on))) =
     [''bar'']"
proof -
  have n: "''An article'' \<noteq> []" by simp
  have p: "JSON_parse (example_ext (tags_text [''#foo'', ''bar''])) (tags_text [''#foo'', ''bar'']) =
             Inr (JObject [(''tags'', JArray [JString ''#foo'', JString ''bar''])])"
    using example_parse_hash_foo_bar [of "tags_text [''#foo'', ''bar'']"]
    by (simp add: tags_value_def)
  have r: "create_requests ''u1''
     (trace (snd (runOpenAI (example_ext (tags_text [''#foo'', ''bar''])) (job_for ''b1'') world_on))) =
     [''bar'']"
    by code_simp
  from hashtag_response_stored_stripped
         [OF world_on_key world_on_enabled job_for_payload world_on_b1 example_bookmark_link
             example_link_description n example_ext_chat tags_text_nonempty p]
       p r
  show ?thesis by (simp add: job_for_jobId)
qed

subsection \<open>Creating and connecting the tags\<close>

lemma stripHashtag_hash: "stripHashtag (CHR ''#'' # t) = t"
  by (simp add: stripHashtag_def startsWith_def slice_def)

lemma runOpenAI_one_new:
  assumes "truthy (OPENAI_API_KEY w)" and "truthy (OPENAI_ENABLED w)"
    and "zOpenAIRequestSchema (job_data j) = Some bid"
    and "fst (fetchBookmark bid w) = Some b"
    and "bm_link b = Some l"
    and "inferTags ext (jobId_of j) l (snd (fetchBookmark bid w)) = (Inr names, w2)"
    and "filter (\<lambda>n. \<not> owns w (bm_userId b) n) names = [n]"
  shows "fst (runOpenAI ext j w) = Inr () \<and>
         bookmarkTags (snd (runOpenAI ext j w)) =
           bookmarkTags w @
           [\<lparr>tag_id = cuid ext (idCounter w), tag_name = n, tag_userId = bm_userId b\<rparr>] \<and>
         tagsOnBookmarks (snd (runOpenAI ext j w)) =
           tagsOnBookmarks w @
           map (\<lambda>i. \<lparr>tagId = i, bookmarkId = bid, attachedBy = ''ai''\<rparr>)
             (map tag_id
                (filter (\<lambda>t. tag_userId t = bm_userId b \<and> tag_name t \<in> set names) (bookmarkTags w)) @
              [cuid ext (idCounter w)])"
proof -
  from inferTags_frame [OF assms(6)] obtain evs where
    w2: "w2 = (snd (fetchBookmark bid w))\<lparr>trace := trace (snd (fetchBookmark bid w)) @ evs\<rparr>"
    by blast
  then have same: "bookmarkTags w2 = bookmarkTags w" "idCounter w2 = idCounter w"
    "tagsOnBookmarks w2 = tagsOnBookmarks w"
    by (simp_all add: fetchBookmark_def)
  from same(1) have "owns w2 (bm_userId b) = owns w (bm_userId b)"
    by (simp add: owns_def fun_eq_iff)
  with assms(7) have new: "filter (\<lambda>n. \<not> owns w2 (bm_userId b) n) names = [n]"
    by simp
  show ?thesis
    by (simp add: runOpenAI_infer [OF assms(1-5)] assms(6) createTags_one_new [OF new]
        connectTags_eq same)
qed

lemma tagged_by_aiI:
  assumes "t \<in> set (bookmarkTags w)" and "tag_userId t = u" and "tag_name t = n"
    and "\<lparr>tagId = tag_id t, bookmarkId = bid, attachedBy = ''ai''\<rparr> \<in> set (tagsOnBookmarks w)"
  shows "tagged_by_ai w u bid n"
proof -
  from assms(4) have
    "\<exists>a\<in>set (tagsOnBookmarks w). tagId a = tag_id t \<and> bookmarkId a = bid \<and> attachedBy a = ''ai''"
    by (rule rev_bexI) simp
  with assms(1-3) show ?thesis
    unfolding tagged_by_ai_def list_ex_iff by blast
qed

text \<open>
  Claim C1. For every job whose inferred tag list is ["foo","baz"] and whose user
  already owns a tag named "foo" (and none named "baz", the tag the claim calls new),
  the handler returns normally, creates exactly one tag row, named "baz" and owned by
  that user, and associates with the bookmark the ids of the user's existing "foo" tag
  and of the new "baz" tag, each attached by "ai".
\<close>

theorem existing_foo_new_baz:
  assumes "truthy (OPENAI_API_KEY w)" and "truthy (OPENAI_ENABLED w)"
    and "zOpenAIRequestSchema (job_data j) = Some bid"
    and "fst (fetchBookmark bid w) = Some b"
    and "bm_link b = Some l"
    and "inferTags ext (jobId_of j) l (snd (fetchBookmark bid w)) = (Inr [''foo'', ''baz''], w2)"
    and "owns w (bm_userId b) ''foo''"
    and "\<not> owns w (bm_userId b) ''baz''"
  shows "fst (runOpenAI ext j w) = Inr () \<and>
         bookmarkTags (snd (runOpenAI ext j w)) =
           bookmarkTags w @
           [\<lparr>tag_id = cuid ext (idCounter w), tag_name = ''baz'', tag_userId = bm_userId b\<rparr>] \<and>
         tag_ids_named w (bm_userId b) ''foo'' \<noteq> [] \<and>
         tagsOnBookmarks (snd (runOpenAI ext j w)) =
           tagsOnBookmarks w @
           map (\<lambda>i. \<lparr>tagId = i, bookmarkId = bid, attachedBy = ''ai''\<rparr>)
             (tag_ids_named w (bm_userId b) ''foo'' @ [cuid ext (idCounter w)])"
proof -
  from assms(7,8) have new:
    "filter (\<lambda>n. \<not> owns w (bm_userId b) n) [''foo'', ''baz''] = [''baz'']"
    by simp
  have "\<And>t. t \<in> set (bookmarkTags w) \<Longrightarrow>
          (tag_userId t = bm_userId b \<and> tag_name t \<in> set [''foo'', ''baz'']) =
          (tag_userId t = bm_userId b \<and> tag_name t = ''foo'')"
    using assms(8) by (auto simp: owns_def list_ex_iff)
  then have old:
    "map tag_id (filter (\<lambda>t. tag_userId t = bm_userId b \<and> tag_name t \<in> set [''foo'', ''baz''])
       (bookmarkTags w)) = tag_ids_named w (bm_userId b) ''foo''"
    unfolding tag_ids_named_def by (simp cong: filter_cong)
  from assms(7) have some: "tag_ids_named w (bm_userId b) ''foo'' \<noteq> []"
    by (auto simp: owns_def tag_ids_named_def list_ex_iff filter_empty_conv)
  from runOpenAI_one_new [OF assms(1-6) new, unfolded old] some show ?thesis
    by blast
qed

text \<open>
  User u1 owns the tag t1 named foo; the answer {"tags":["foo","baz"]} to the job for
  b1 adds the one tag baz and attaches t1 and the new tag to b1.
\<close>

theorem existing_foo_new_baz_witness:
  "owns world_on ''u1'' ''foo'' \<and> \<not> owns world_on ''u1'' ''baz'' \<and>
   fst (inferTags (example_ext (tags_text [''foo'', ''baz''])) ''42'' example_link
          (snd (fetchBookmark ''b1'' world_on))) = Inr [''foo'', ''baz''] \<and>
   fst (runOpenAI (example_ext (tags_text [''foo'', ''baz''])) (job_for ''b1'') world_on) = Inr () \<and>
   bookmarkTags (snd (runOpenAI (example_ext (tags_text [''foo'', ''baz''])) (job_for ''b1'') world_on)) =
     [\<lparr>tag_id = ''t1'', tag_name = ''foo'', tag_userId = ''u1''\<rparr>,
      \<lparr>tag_id = ''new'', tag_name = ''baz'', tag_userId = ''u1''\<rparr>] \<and>
   tagsOnBookmarks (snd (runOpenAI (example_ext (tags_text [''foo'', ''baz''])) (job_for ''b1'') world_on)) =
     [\<lparr>tagId = ''t1'', bookmarkId = ''b1'', attachedBy = ''ai''\<rparr>,
      \<lparr>tagId = ''new'', bookmarkId = ''b1'', attachedBy = ''ai''\<rparr>]"
proof -
  have foo: "owns world_on (bm_userId example_bookmark) ''foo''"
    and baz: "\<not> owns world_on (bm_userId example_bookmark) ''baz''"
    by (simp_all add: owns_def world_on_def example_world_def example_bookmark_def)
  have n: "''An article'' \<noteq> []" by simp
  have i: "inferTags (example_ext (tags_text [''foo'', ''baz''])) (jobId_of (job_for ''b1'')) example_link
             (snd (fetchBookmark ''b1'' world_on)) =
           (Inr [''foo'', ''baz''],
            (snd (fetchBookmark ''b1'' world_on))
              \<lparr>trace := trace (snd (fetchBookmark ''b1'' world_on)) @
                 [ChatCompletionsCreate (buildPrompt (url example_link) ''An article'')]\<rparr>)"
    using inferTags_parsed [OF example_link_description n example_ext_chat tags_text_nonempty
        example_parse_foo_baz schema_tags_value]
    by (simp add: stripHashtag_def startsWith_def slice_def)
  have v: "tag_ids_named world_on ''u1'' ''foo'' = [''t1'']"
    "bookmarkTags world_on = [\<lparr>tag_id = ''t1'', tag_name = ''foo'', tag_userId = ''u1''\<rparr>]"
    "tagsOnBookmarks world_on = []" "idCounter world_on = 0"
    "cuid (example_ext (tags_text [''foo'', ''baz''])) 0 = ''new''"
    by (simp_all add: tag_ids_named_def world_on_def example_world_def example_ext_def)
  from existing_foo_new_baz
         [OF world_on_key world_on_enabled job_for_payload world_on_b1 example_bookmark_link i foo baz]
       foo baz i
  show ?thesis
    by (simp add: v example_bookmark_user job_for_jobId)
qed

text \<open>
  Claim C10. Hashtag stripping removes exactly the first character of a tag that begins
  with a hashtag, so at most one: "##x" is stored as "#x" and "#" becomes the empty
  string. The handler has no filter for empty names: when the AI response holds the one
  tag "#" and the user has no tag with the empty name, a tag with the empty name is
  created for the user and associated with the bookmark.
\<close>

theorem lone_hash_becomes_empty_tag:
  assumes "truthy (OPENAI_API_KEY w)" and "truthy (OPENAI_ENABLED w)"
    and "zOpenAIRequestSchema (job_data j) = Some bid"
    and "fst (fetchBookmark bid w) = Some b"
    and "bm_link b = Some l"
    and "description l = Some d" and "d \<noteq> []"
    and "chat_completions_create ext (buildPrompt (url l) d) = Inr (Some c # others)"
    and "c \<noteq> []"
    and "JSON_parse ext c = Inr v"
    and "openAIResponseSchema v = Some [''#'']"
    and "\<not> owns w (bm_userId b) []"
  shows "stripHashtag (CHR ''#'' # t) = t \<and>
         stripHashtag ''##x'' = ''#x'' \<and>
         stripHashtag ''#'' = [] \<and>
         fst (inferTags ext (jobId_of j) l (snd (fetchBookmark bid w))) = Inr [[]] \<and>
         fst (runOpenAI ext j w) = Inr () \<and>
         bookmarkTags (snd (runOpenAI ext j w)) =
           bookmarkTags w @
           [\<lparr>tag_id = cuid ext (idCounter w), tag_name = [], tag_userId = bm_userId b\<rparr>] \<and>
         tagsOnBookmarks (snd (runOpenAI ext j w)) =
           tagsOnBookmarks w @
           [\<lparr>tagId = cuid ext (idCounter w), bookmarkId = bid, attachedBy = ''ai''\<rparr>]"
proof -
  from inferTags_parsed [OF assms(6-11)]
  have i: "inferTags ext (jobId_of j) l (snd (fetchBookmark bid w)) =
          (Inr [[]],
           (snd (fetchBookmark bid w))
             \<lparr>trace := trace (snd (fetchBookmark bid w)) @ [ChatCompletionsCreate (buildPrompt (url l) d)]\<rparr>)"
    by (simp add: stripHashtag_hash)
  from assms(12) have new: "filter (\<lambda>n. \<not> owns w (bm_userId b) n) [[]] = [[]]"
    by simp
  from assms(12) have old:
    "filter (\<lambda>t. tag_userId t = bm_userId b \<and> tag_name t \<in> set [[]]) (bookmarkTags w) = []"
    by (auto simp: owns_def list_ex_iff filter_empty_conv)
  have strip: "stripHashtag ''##x'' = ''#x''" "stripHashtag ''#'' = []"
    by (simp_all add: stripHashtag_hash)
  from i have "fst (inferTags ext (jobId_of j) l (snd (fetchBookmark bid w))) = Inr [[]]"
    by simp
  with runOpenAI_one_new [OF assms(1-5) i new, unfolded old] strip stripHashtag_hash [of t]
  show ?thesis
    by simp
qed

text \<open>The answer {"tags":["#"]} to the job for b1 gives user u1 a tag with the empty name.\<close>

theorem lone_hash_becomes_empty_tag_witness:
  "\<not> owns world_on ''u1'' [] \<and>
   fst (runOpenAI (example_ext (tags_text [''#''])) (job_for ''b1'') world_on) = Inr () \<and>
   bookmarkTags (snd (runOpenAI (example_ext (tags_text [''#''])) (job_for ''b1'') world_on)) =
     [\<lparr>tag_id = ''t1'', tag_name = ''foo'', tag_userId = ''u1''\<rparr>,
      \<lparr>tag_id = ''new'', tag_name = [], tag_userId = ''u1''\<rparr>] \<and>
   tagsOnBookmarks (snd (runOpenAI (example_ext (tags_text [''#''])) (job_for ''b1'') world_on)) =
     [\<lparr>tagId = ''new'', bookmarkId = ''b1'', attachedBy = ''ai''\<rparr>]"
proof -
  have none: "\<not> owns world_on (bm_userId example_bookmark) []"
    by (simp add: owns_def world_on_def example_world_def example_bookmark_def)
  have n: "''An article'' \<noteq> []" by simp
  have v: "bookmarkTags world_on = [\<lparr>tag_id = ''t1'', tag_name = ''foo'', tag_userId = ''u1''\<rparr>]"
    "tagsOnBookmarks world_on = []" "idCounter world_on = 0"
    "cuid (example_ext (tags_text [''#''])) 0 = ''new''"
    by (simp_all add: world_on_def example_world_def example_ext_def)
  from lone_hash_becomes_empty_tag
         [OF world_on_key world_on_enabled job_for_payload world_on_b1 example_bookmark_link
             example_link_description n example_ext_chat tags_text_nonempty example_parse_hash
             schema_tags_value none]
       none
  show ?thesis
    by (simp add: v example_bookmark_user)
qed

text \<open>
  Claim C9. Every association row the handler creates records "ai" as the attaching
  actor: the rows that were there before the run are kept in place, and every row
  added after them has attachedBy = "ai".
\<close>

theorem associations_attached_by_ai:
  "prefix (tagsOnBookmarks w) (tagsOnBookmarks (snd (runOpenAI ext j w))) \<and>
   (\<forall>a\<in>set (new_associations w (snd (runOpenAI ext j w))). attachedBy a = ''ai'')"
proof -
  obtain r w' where run: "runOpenAI ext j w = (r, w')"
    by (cases "runOpenAI ext j w")
  from runOpenAI_outcome [OF run]
  have "\<exists>bid ids. tagsOnBookmarks w' =
          tagsOnBookmarks w @ map (\<lambda>i. \<lparr>tagId = i, bookmarkId = bid, attachedBy = ''ai''\<rparr>) ids"
  proof (elim disjE conjE exE)
    assume "tagsOnBookmarks w' = tagsOnBookmarks w"
    then have "tagsOnBookmarks w' =
          tagsOnBookmarks w @ map (\<lambda>i. \<lparr>tagId = i, bookmarkId = [], attachedBy = ''ai''\<rparr>) []"
      by simp
    then show ?thesis by blast
  next
    assume "tagsOnBookmarks w' = tagsOnBookmarks w"
    then have "tagsOnBookmarks w' =
          tagsOnBookmarks w @ map (\<lambda>i. \<lparr>tagId = i, bookmarkId = [], attachedBy = ''ai''\<rparr>) []"
      by simp
    then show ?thesis by blast
  next
    fix bid ids w3
    assume "tagsOnBookmarks w3 = tagsOnBookmarks w" and "w' = snd (connectTags bid ids w3)"
    then have "tagsOnBookmarks w' =
          tagsOnBookmarks w @ map (\<lambda>i. \<lparr>tagId = i, bookmarkId = bid, attachedBy = ''ai''\<rparr>) ids"
      by (simp add: connectTags_eq)
    then show ?thesis by blast
  qed
  then obtain bid ids where
    "tagsOnBookmarks w' =
       tagsOnBookmarks w @ map (\<lambda>i. \<lparr>tagId = i, bookmarkId = bid, attachedBy = ''ai''\<rparr>) ids"
    by blast
  then show ?thesis
    unfolding run by (auto simp: new_associations_def)
qed

text \<open>The two associations of the foo/baz run, both attached by "ai".\<close>

theorem associations_attached_by_ai_witness:
  "new_associations world_on
     (snd (runOpenAI (example_ext (tags_text [''foo'', ''baz''])) (job_for ''b1'') world_on)) =
     [\<lparr>tagId = ''t1'', bookmarkId = ''b1'', attachedBy = ''ai''\<rparr>,
      \<lparr>tagId = ''new'', bookmarkId = ''b1'', attachedBy = ''ai''\<rparr>] \<and>
   list_all (\<lambda>a. attachedBy a = ''ai'')
     (new_associations world_on
        (snd (runOpenAI (example_ext (tags_text [''foo'', ''baz''])) (job_for ''b1'') world_on)))"
proof -
  have "new_associations world_on
     (snd (runOpenAI (example_ext (tags_text [''foo'', ''baz''])) (job_for ''b1'') world_on)) =
     [\<lparr>tagId = ''t1'', bookmarkId = ''b1'', attachedBy = ''ai''\<rparr>,
      \<lparr>tagId = ''new'', bookmarkId = ''b1'', attachedBy = ''ai''\<rparr>]"
    by code_simp
  moreover from associations_attached_by_ai
      [of world_on "example_ext (tags_text [''foo'', ''baz''])" "job_for ''b1''"]
  have "list_all (\<lambda>a. attachedBy a = ''ai'')
     (new_associations world_on
        (snd (runOpenAI (example_ext (tags_text [''foo'', ''baz''])) (job_for ''b1'') world_on)))"
    by (simp add: list_all_iff)
  ultimately show ?thesis by blast
qed

text \<open>
  Claim C8 says that tag names are deduplicated before creation, also within one
  inferred list. createTags filters the list against the tags the user already has and
  not against itself: for the answer {"tags":["baz","baz"]} it asks the storage layer
  twice to create baz for user u1. The second request violates the uniqueness of
  (userId, name), the handler throws, the row of the first request stays and the
  bookmark gets no association.
\<close>

theorem repeated_new_name_requested_twice:
  "fst (inferTags (example_ext (tags_text [''baz'', ''baz''])) ''42'' example_link
          (snd (fetchBookmark ''b1'' world_on))) = Inr [''baz'', ''baz''] \<and>
   create_requests ''u1''
     (trace (snd (runOpenAI (example_ext (tags_text [''baz'', ''baz''])) (job_for ''b1'') world_on))) =
     [''baz'', ''baz''] \<and>
   fst (runOpenAI (example_ext (tags_text [''baz'', ''baz''])) (job_for ''b1'') world_on) =
     Inl UniqueConstraintFailed \<and>
   map tag_name
     (bookmarkTags (snd (runOpenAI (example_ext (tags_text [''baz'', ''baz''])) (job_for ''b1'') world_on))) =
     [''foo'', ''baz''] \<and>
   new_associations world_on
     (snd (runOpenAI (example_ext (tags_text [''baz'', ''baz''])) (job_for ''b1'') world_on)) = []"
  by code_simp

text \<open>Hence the names of the creation requests of that run are not distinct.\<close>

theorem repeated_new_name_requested_twice_witness:
  "\<not> distinct
       (create_requests ''u1''
          (trace (snd (runOpenAI (example_ext (tags_text [''baz'', ''baz''])) (job_for ''b1'') world_on))))"
  using repeated_new_name_requested_twice by simp

text \<open>
  Claim C7, as stated, says that an exception leaves the storage state unchanged. The
  handler sends every insert on its own and never rolls back: in the run below an
  exception propagates, a tag row has been added, and no association was created.
\<close>

theorem repeated_new_name_counterexample:
  "fst (runOpenAI (example_ext (tags_text [''baz'', ''baz''])) (job_for ''b1'') world_on) =
     Inl UniqueConstraintFailed \<and>
   bookmarkTags (snd (runOpenAI (example_ext (tags_text [''baz'', ''baz''])) (job_for ''b1'') world_on)) =
     bookmarkTags world_on @ [\<lparr>tag_id = ''new'', tag_name = ''baz'', tag_userId = ''u1''\<rparr>] \<and>
   bookmarkTags (snd (runOpenAI (example_ext (tags_text [''baz'', ''baz''])) (job_for ''b1'') world_on)) \<noteq>
     bookmarkTags world_on \<and>
   tagsOnBookmarks (snd (runOpenAI (example_ext (tags_text [''baz'', ''baz''])) (job_for ''b1'') world_on)) = []"
  by code_simp

text \<open>
  Claim C7, amended. The handler either returns normally or an exception propagates,
  and in both cases it only adds rows: the bookmarks are untouched and the tag and
  association rows that were there before are kept in place. An exception other than a
  rejected insert, hence one raised before the tag-creation step, leaves the tags and
  the associations unchanged. A normal return with the integration configured means
  that every step has completed: the payload named a bookmark with a link, tags were
  inferred, and for each inferred name the user has a tag of that name whose id is
  associated with the bookmark by "ai".
\<close>

theorem no_rollback_rows_kept:
  assumes "runOpenAI ext j w = (r, w')"
  shows "rows_kept w w' \<and>
         (\<forall>e. r = Inl e \<longrightarrow> e \<noteq> UniqueConstraintFailed \<longrightarrow>
              bookmarkTags w' = bookmarkTags w \<and> tagsOnBookmarks w' = tagsOnBookmarks w) \<and>
         (r = Inr () \<longrightarrow> truthy (OPENAI_API_KEY w) \<longrightarrow> truthy (OPENAI_ENABLED w) \<longrightarrow>
            (\<exists>bid b l tags.
                zOpenAIRequestSchema (job_data j) = Some bid \<and>
                fst (fetchBookmark bid w) = Some b \<and> bm_link b = Some l \<and>
                fst (inferTags ext (jobId_of j) l (snd (fetchBookmark bid w))) = Inr tags \<and>
                (\<forall>n\<in>set tags. tagged_by_ai w' (bm_userId b) bid n)))"
  using runOpenAI_outcome [OF assms]
proof (elim disjE conjE exE)
  assume "r \<noteq> Inl UniqueConstraintFailed"
    and "r = Inr () \<longrightarrow> \<not> (truthy (OPENAI_API_KEY w) \<and> truthy (OPENAI_ENABLED w))"
    and "bookmarks w' = bookmarks w" and "bookmarkTags w' = bookmarkTags w"
    and "tagsOnBookmarks w' = tagsOnBookmarks w"
  then show ?thesis by (simp add: rows_kept_def)
next
  assume "r = Inl UniqueConstraintFailed"
    and "bookmarks w' = bookmarks w" and "prefix (bookmarkTags w) (bookmarkTags w')"
    and "tagsOnBookmarks w' = tagsOnBookmarks w"
  then show ?thesis by (simp add: rows_kept_def)
next
  fix bid b l tags w2 ids w3
  assume r: "r = Inr ()"
    and payload: "zOpenAIRequestSchema (job_data j) = Some bid"
    and found: "fst (fetchBookmark bid w) = Some b" and link: "bm_link b = Some l"
    and infer: "inferTags ext (jobId_of j) l (snd (fetchBookmark bid w)) = (Inr tags, w2)"
    and create: "createTags ext tags (bm_userId b) w2 = (Inr ids, w3)"
    and w3: "bookmarks w3 = bookmarks w" "prefix (bookmarkTags w) (bookmarkTags w3)"
      "tagsOnBookmarks w3 = tagsOnBookmarks w"
    and w': "w' = snd (connectTags bid ids w3)"
  from w' have tables: "bookmarks w' = bookmarks w3" "bookmarkTags w' = bookmarkTags w3"
    "tagsOnBookmarks w' =
       tagsOnBookmarks w3 @ map (\<lambda>i. \<lparr>tagId = i, bookmarkId = bid, attachedBy = ''ai''\<rparr>) ids"
    by (simp_all add: connectTags_eq)
  with w3 have kept: "rows_kept w w'"
    by (simp add: rows_kept_def)
  have "tagged_by_ai w' (bm_userId b) bid n" if "n \<in> set tags" for n
  proof -
    from createTags_Inr [OF create that] obtain t where
      "t \<in> set (bookmarkTags w3)" "tag_userId t = bm_userId b" "tag_name t = n"
      "tag_id t \<in> set ids"
      by blast
    with tables show ?thesis
      by (auto intro!: tagged_by_aiI [of t])
  qed
  with payload found link infer have
    "\<exists>bid b l tags.
        zOpenAIRequestSchema (job_data j) = Some bid \<and>
        fst (fetchBookmark bid w) = Some b \<and> bm_link b = Some l \<and>
        fst (inferTags ext (jobId_of j) l (snd (fetchBookmark bid w))) = Inr tags \<and>
        (\<forall>n\<in>set tags. tagged_by_ai w' (bm_userId b) bid n)"
    by (intro exI [of _ bid] exI [of _ b] exI [of _ l] exI [of _ tags]) simp
  with kept r show ?thesis by simp
qed

text \<open>
  The foo/baz run returns normally with both names attached to b1; the run that gets
  the answer "not json" throws and leaves the tags and associations as they were.
\<close>

theorem no_rollback_rows_kept_witness:
  "fst (runOpenAI (example_ext (tags_text [''foo'', ''baz''])) (job_for ''b1'') world_on) = Inr () \<and>
   rows_kept world_on
     (snd (runOpenAI (example_ext (tags_text [''foo'', ''baz''])) (job_for ''b1'') world_on)) \<and>
   tagged_by_ai
     (snd (runOpenAI (example_ext (tags_text [''foo'', ''baz''])) (job_for ''b1'') world_on))
     ''u1'' ''b1'' ''foo'' \<and>
   tagged_by_ai
     (snd (runOpenAI (example_ext (tags_text [''foo'', ''baz''])) (job_for ''b1'') world_on))
     ''u1'' ''b1'' ''baz'' \<and>
   fst (runOpenAI (example_ext ''not json'') (job_for ''b1'') world_on) =
     Inl (Error ''[openai][42] Failed to parse JSON response from OpenAI: SyntaxError: Unexpected token'') \<and>
   bookmarkTags (snd (runOpenAI (example_ext ''not json'') (job_for ''b1'') world_on)) =
     bookmarkTags world_on \<and>
   tagsOnBookmarks (snd (runOpenAI (example_ext ''not json'') (job_for ''b1'') world_on)) =
     tagsOnBookmarks world_on"
proof -
  let ?ok = "runOpenAI (example_ext (tags_text [''foo'', ''baz''])) (job_for ''b1'') world_on"
  let ?bad = "runOpenAI (example_ext ''not json'') (job_for ''b1'') world_on"
  have ok: "fst ?ok = Inr ()"
    by code_simp
  have bad: "fst ?bad =
     Inl (Error ''[openai][42] Failed to parse JSON response from OpenAI: SyntaxError: Unexpected token'')"
    by code_simp
  have infer: "fst (inferTags (example_ext (tags_text [''foo'', ''baz''])) (jobId_of (job_for ''b1''))
                      example_link (snd (fetchBookmark ''b1'' world_on))) = Inr [''foo'', ''baz'']"
    by code_simp
  from ok have "?ok = (Inr (), snd ?ok)"
    by (simp add: prod_eq_iff)
  note all = no_rollback_rows_kept [OF this]
  from all have kept: "rows_kept world_on (snd ?ok)"
    by simp
  from all ok world_on_key world_on_enabled obtain bid b l tags where
    p: "zOpenAIRequestSchema (job_data (job_for ''b1'')) = Some bid"
    and f: "fst (fetchBookmark bid world_on) = Some b" and l: "bm_link b = Some l"
    and i: "fst (inferTags (example_ext (tags_text [''foo'', ''baz''])) (jobId_of (job_for ''b1'')) l
            (snd (fetchBookmark bid world_on))) = Inr tags"
    and t: "\<forall>n\<in>set tags. tagged_by_ai (snd ?ok) (bm_userId b) bid n"
    by auto
  from p have bid: "bid = ''b1''"
    by (simp add: job_for_payload)
  from f have b: "b = example_bookmark"
    unfolding bid by (simp add: world_on_b1)
  from l have "l = example_link"
    unfolding b by (simp add: example_bookmark_link)
  with i infer have "tags = [''foo'', ''baz'']"
    unfolding bid by simp
  with t have tagged:
    "tagged_by_ai (snd ?ok) ''u1'' ''b1'' ''foo''" "tagged_by_ai (snd ?ok) ''u1'' ''b1'' ''baz''"
    unfolding bid b by (simp_all add: example_bookmark_user)
  from bad have "?bad =
     (Inl (Error ''[openai][42] Failed to parse JSON response from OpenAI: SyntaxError: Unexpected token''),
      snd ?bad)"
    by (simp add: prod_eq_iff)
  from no_rollback_rows_kept [OF this]
  have "bookmarkTags (snd ?bad) = bookmarkTags world_on"
    "tagsOnBookmarks (snd ?bad) = tagsOnBookmarks world_on"
    by simp_all
  with ok kept tagged bad show ?thesis by simp
qed

end
